theory Spec2Isabelle
  imports Complex_Main "HOL-Library.Char_ord" "HOL-Library.List_Lexorder"
    "HOL-Library.Product_Lexorder"
begin

section \<open>Passenger forecasting by a linear trend: the model of forecast.py\<close>

text \<open>
  The program reads wide tables of monthly passenger counts, reshapes them to one
  series per category, fits a straight line to each series, projects it forward and
  classifies the first projected step against the last observed month.

  Numbers: a Python \<open>float\<close> is modelled as a \<open>real\<close>, so every statement below is about
  exact arithmetic, without rounding. A missing value (\<open>NaN\<close>, \<open>NaT\<close>) is \<open>None\<close> of an
  option type. Python's \<open>int\<close> is \<open>int\<close>. A string is a list of bytes (UTF-8).
  Every \<open>raise\<close> is the left summand of a result type.
\<close>

datatype error = ValueError string | FileNotFoundError string

subsection \<open>The library calls of the trend fit\<close>

text \<open>
  \<open>mean\<close> is \<open>numpy.mean\<close>; it is only applied to a non-empty list here.
  \<open>arange lo hi\<close> is \<open>numpy.arange(lo, hi)\<close>: the integers from \<open>lo\<close> up to \<open>hi - 1\<close>.
\<close>

definition mean :: "real list \<Rightarrow> real" where
  "mean xs = sum_list xs / real (length xs)"

definition arange :: "int \<Rightarrow> int \<Rightarrow> real list" where
  "arange lo hi = map real_of_int [lo..hi - 1]"

text \<open>
  \<open>LinearRegression().fit(t, y)\<close> of scikit-learn with one feature and an intercept:
  both columns are centred on their means, the coefficient is the least-squares
  solution on the centred data (the minimum-norm solution \<open>0\<close> when the centred
  feature is all zero), and the intercept is \<open>mean y - mean t * coef\<close>.
  The result is the pair \<open>(intercept_, coef_[0])\<close>.
\<close>

definition linreg_fit :: "real list \<Rightarrow> real list \<Rightarrow> real \<times> real" where
  "linreg_fit t y =
     (let t_offset = mean t;
          y_offset = mean y;
          sxx = sum_list (map (\<lambda>x. (x - t_offset) * (x - t_offset)) t);
          sxy = sum_list (map2 (\<lambda>x v. (x - t_offset) * (v - y_offset)) t y);
          coef = (if sxx = 0 then 0 else sxy / sxx)
      in (y_offset - t_offset * coef, coef))"

definition linreg_predict :: "real \<times> real \<Rightarrow> real list \<Rightarrow> real list" where
  "linreg_predict model t = map (\<lambda>x. fst model + snd model * x) t"

text \<open>
  \<open>r2_score(y_true, y_pred)\<close> of scikit-learn: one minus the residual sum of squares
  over the total sum of squares about the mean; when the total is zero the score is
  \<open>1\<close> for a perfect prediction and \<open>0\<close> otherwise.
\<close>

definition ss_res :: "real list \<Rightarrow> real list \<Rightarrow> real" where
  "ss_res y_true y_pred = sum_list (map2 (\<lambda>v p. (v - p) * (v - p)) y_true y_pred)"

definition ss_tot :: "real list \<Rightarrow> real" where
  "ss_tot y_true = sum_list (map (\<lambda>v. (v - mean y_true) * (v - mean y_true)) y_true)"

definition r2_score :: "real list \<Rightarrow> real list \<Rightarrow> real" where
  "r2_score y_true y_pred =
     (let numerator = ss_res y_true y_pred;
          denominator = ss_tot y_true
      in if denominator \<noteq> 0 \<and> numerator \<noteq> 0 then 1 - numerator / denominator
         else if numerator \<noteq> 0 then 0
         else 1)"

subsection \<open>Trend fit, projection and direction\<close>

text \<open>
  \<open>_fit_linear_trend(y)\<close>: the fit against \<open>t = 1..n\<close>, returning
  \<open>(intercept, slope, r2)\<close>. scikit-learn refuses an empty sample with a \<open>ValueError\<close>.
\<close>

definition fit_linear_trend :: "real list \<Rightarrow> error + (real \<times> real \<times> real)" where
  "fit_linear_trend y =
     (let n = length y;
          t = arange 1 (int n + 1)
      in if n = 0 then Inl (ValueError ''Found array with 0 sample(s)'')
         else let model = linreg_fit t y;
                  y_hat = linreg_predict model t;
                  r2 = (if n \<ge> 2 then r2_score y y_hat else 1)
              in Inr (fst model, snd model, r2))"

text \<open>\<open>_predict_future(a, b, n, horizon)\<close>: the line at \<open>t = n+1 .. n+horizon\<close>.\<close>

definition predict_future :: "real \<Rightarrow> real \<Rightarrow> int \<Rightarrow> int \<Rightarrow> real list" where
  "predict_future a b n horizon =
     map (\<lambda>t. a + b * t) (arange (n + 1) (n + horizon + 1))"

text \<open>
  \<open>_classify_direction(last_actual, next_pred)\<close>. The results are the program's own
  words: \<open>naik\<close> (up), \<open>turun\<close> (down), \<open>tetap\<close> (flat), \<open>tidak diketahui\<close> (unknown).
\<close>

definition classify_direction :: "real option \<Rightarrow> real option \<Rightarrow> string" where
  "classify_direction last_actual next_pred =
     (case (last_actual, next_pred) of
        (Some l, Some p) \<Rightarrow>
          (let tol = max (0.005 * \<bar>l\<bar>) 10
           in if p > l + tol then ''naik''
              else if p < l - tol then ''turun''
              else ''tetap'')
      | _ \<Rightarrow> ''tidak diketahui'')"

text \<open>
  The body of the loop of \<open>fit_trend_and_forecast\<close> for one category, on the counts
  \<open>y\<close> of the group in date order: the fit step (with its branch for fewer than two
  points), the projection, the last actual value and the direction.
\<close>

definition fit_step :: "real list \<Rightarrow> error + (real \<times> real \<times> real)" where
  "fit_step y =
     (let n = length y
      in if n < 2 then Inr (if n \<noteq> 0 then mean y else 0, 0, 1)
         else fit_linear_trend y)"

record group_summary =
  n_obs :: nat
  last_month_actual :: "real option"
  slope_per_bulan :: real
  intercept :: real
  r2 :: real
  arah_prediksi :: string
  future_values :: "real list"

definition forecast_group :: "real list \<Rightarrow> int \<Rightarrow> error + group_summary" where
  "forecast_group y horizon =
     (case fit_step y of
        Inl e \<Rightarrow> Inl e
      | Inr (a, b, r) \<Rightarrow>
          (let n = length y;
               preds = (if horizon > 0 then predict_future a b (int n) horizon else []);
               last_actual = (if n > 0 then Some (last y) else None);
               direction = classify_direction last_actual
                             (case preds of [] \<Rightarrow> None | p # _ \<Rightarrow> Some p)
           in Inr \<lparr>n_obs = n, last_month_actual = last_actual, slope_per_bulan = b,
                   intercept = a, r2 = r, arah_prediksi = direction,
                   future_values = preds\<rparr>))"

subsection \<open>Tables\<close>





text \<open>
  \<open>_strip_bom_and_clean(col)\<close>: every byte-order mark (U+FEFF, the bytes EF BB BF) is
  removed, then the white space at both ends (the ASCII white space of \<open>str.strip\<close>).
\<close>

fun remove_bom :: "string \<Rightarrow> string" where
  "remove_bom (a # b # c # rest) =
     (if a = CHR 0xEF \<and> b = CHR 0xBB \<and> c = CHR 0xBF then remove_bom rest
      else a # remove_bom (b # c # rest))"
| "remove_bom s = s"

definition is_space :: "char \<Rightarrow> bool" where
  "is_space c = (c \<in> set [CHR 0x09, CHR 0x0A, CHR 0x0B, CHR 0x0C, CHR 0x0D,
                           CHR 0x1C, CHR 0x1D, CHR 0x1E, CHR 0x1F, CHR 0x20])"

definition strip :: "string \<Rightarrow> string" where
  "strip s = rev (dropWhile is_space (rev (dropWhile is_space s)))"

definition strip_bom_and_clean :: "string \<Rightarrow> string" where
  "strip_bom_and_clean col = strip (remove_bom col)"















subsection \<open>Years\<close>

text \<open>
  \<open>infer_year_from_filename(path)\<close>: \<open>os.path.basename\<close>, then the first match of the
  pattern \<open>(20\d{2})\<close> in the base name, read as a decimal number, then the range check.
\<close>

definition basename :: "string \<Rightarrow> string" where
  "basename p = rev (takeWhile (\<lambda>c. c \<noteq> CHR ''/'') (rev p))"

definition is_digit :: "char \<Rightarrow> bool" where
  "is_digit c = (c \<in> set ''0123456789'')"

definition digit_val :: "char \<Rightarrow> int" where
  "digit_val c = int (of_char c) - 48"

fun search_20dd :: "string \<Rightarrow> string option" where
  "search_20dd (a # b # c # d # rest) =
     (if a = CHR ''2'' \<and> b = CHR ''0'' \<and> is_digit c \<and> is_digit d then Some [a, b, c, d]
      else search_20dd (b # c # d # rest))"
| "search_20dd s = None"

definition int_of_digits :: "string \<Rightarrow> int" where
  "int_of_digits s = foldl (\<lambda>acc c. 10 * acc + digit_val c) 0 s"

definition infer_year_from_filename :: "string \<Rightarrow> int option" where
  "infer_year_from_filename path =
     (let base = basename path
      in case search_20dd base of
           None \<Rightarrow> None
         | Some g \<Rightarrow> (let y = int_of_digits g
                      in if 1900 \<le> y \<and> y \<le> 2100 then Some y else None))"

text \<open>
  \<open>_normalize_years_for_inputs(paths, years, default_year)\<close>: the loop over the paths
  with their positions; the first path with no year raises the error that names it.
\<close>

definition year_error :: "string \<Rightarrow> error" where
  "year_error p = ValueError (''Tidak bisa menentukan tahun untuk file '' @ [CHR 0x27] @ p @
      [CHR 0x27] @ ''. Berikan --year atau --default_year.'')"

fun normalize_loop ::
    "nat \<Rightarrow> string list \<Rightarrow> int list option \<Rightarrow> int option \<Rightarrow> error + int list" where
  "normalize_loop i [] years default_year = Inr []"
| "normalize_loop i (p # ps) years default_year =
     (let y = (case years of
                 None \<Rightarrow> None
               | Some ys \<Rightarrow> if length ys = 1 then Some (ys ! 0)
                            else if i < length ys then Some (ys ! i)
                            else None);
          y = (if y = None then infer_year_from_filename p else y);
          y = (if y = None then default_year else y)
      in case y of
           None \<Rightarrow> Inl (year_error p)
         | Some v \<Rightarrow> (case normalize_loop (Suc i) ps years default_year of
                        Inl e \<Rightarrow> Inl e
                      | Inr result \<Rightarrow> Inr (v # result)))"

definition normalize_years_for_inputs ::
    "string list \<Rightarrow> int list option \<Rightarrow> int option \<Rightarrow> error + int list" where
  "normalize_years_for_inputs paths years default_year = normalize_loop 0 paths years default_year"

subsection \<open>The merger\<close>



subsection \<open>Notions used by the statements\<close>


text \<open>
  The year of the source at position \<open>i\<close> under a list of explicit years read by
  position: the year at that position, else the year of the name, else the default.
\<close>

definition positional_year :: "int list \<Rightarrow> int option \<Rightarrow> nat \<Rightarrow> string \<Rightarrow> int option" where
  "positional_year ys default_year i p =
     (if i < length ys then Some (ys ! i)
      else case infer_year_from_filename p of
             Some y \<Rightarrow> Some y
           | None \<Rightarrow> default_year)"




subsection \<open>Example inputs\<close>






section \<open>Properties\<close>

subsection \<open>Direction classification\<close>



text \<open>
  Claim C2. For defined values \<open>last\<close> and \<open>pred\<close>, with
  \<open>tolerance = max (0.005 * |last|) 10\<close>, the classification is \<open>naik\<close> (up) exactly when
  \<open>pred > last + tolerance\<close>, \<open>turun\<close> (down) exactly when \<open>pred < last - tolerance\<close>, and
  \<open>tetap\<close> (flat) exactly in the remaining case; the boundary \<open>pred = last + tolerance\<close>
  is flat; when either value is missing the result is \<open>tidak diketahui\<close> (unknown).
\<close>

theorem C2_classify_direction:
  "(classify_direction (Some l) (Some p) = ''naik'' \<longleftrightarrow> p > l + max (0.005 * \<bar>l\<bar>) 10) \<and>
   (classify_direction (Some l) (Some p) = ''turun'' \<longleftrightarrow> p < l - max (0.005 * \<bar>l\<bar>) 10) \<and>
   (classify_direction (Some l) (Some p) = ''tetap'' \<longleftrightarrow>
      \<not> p > l + max (0.005 * \<bar>l\<bar>) 10 \<and> \<not> p < l - max (0.005 * \<bar>l\<bar>) 10) \<and>
   classify_direction (Some l) (Some (l + max (0.005 * \<bar>l\<bar>) 10)) = ''tetap'' \<and>
   classify_direction None q = ''tidak diketahui'' \<and>
   classify_direction q' None = ''tidak diketahui''"
proof -
  have tol: "max (0.005 * \<bar>l\<bar>) 10 \<ge> (10::real)" by simp
  have up: "classify_direction (Some l) (Some p) = ''naik'' \<longleftrightarrow> p > l + max (0.005 * \<bar>l\<bar>) 10"
    by (simp add: classify_direction_def Let_def)
  have down: "classify_direction (Some l) (Some p) = ''turun'' \<longleftrightarrow> p < l - max (0.005 * \<bar>l\<bar>) 10"
    using tol by (simp add: classify_direction_def Let_def) linarith
  have flat: "classify_direction (Some l) (Some p) = ''tetap'' \<longleftrightarrow>
      \<not> p > l + max (0.005 * \<bar>l\<bar>) 10 \<and> \<not> p < l - max (0.005 * \<bar>l\<bar>) 10"
    by (simp add: classify_direction_def Let_def)
  have edge: "classify_direction (Some l) (Some (l + max (0.005 * \<bar>l\<bar>) 10)) = ''tetap''"
    using tol by (simp add: classify_direction_def Let_def)
  have miss1: "classify_direction None q = ''tidak diketahui''"
    by (simp add: classify_direction_def)
  have miss2: "classify_direction q' None = ''tidak diketahui''"
    by (cases q') (simp_all add: classify_direction_def)
  from up down flat edge miss1 miss2 show ?thesis by blast
qed

subsection \<open>The linear projection\<close>



subsection \<open>The degenerate fits\<close>

text \<open>
  Claim C4. With no observation the fit step gives intercept \<open>0\<close>, slope \<open>0\<close> and
  \<open>r2 = 1\<close>; with exactly one observation \<open>v\<close> it gives intercept \<open>v\<close>, slope \<open>0\<close> and
  \<open>r2 = 1\<close>. The result triple is \<open>(intercept, slope, r2)\<close>.
\<close>

theorem C4_degenerate_fit:
  "fit_step [] = Inr (0, 0, 1) \<and> fit_step [v] = Inr (v, 0, 1)"
  by (simp add: fit_step_def mean_def)

subsection \<open>The scenario of four months\<close>

text \<open>
  Claim C1. For the series \<open>[100, 110, 120, 130]\<close> fitted against \<open>t = 1..4\<close> the fit has
  intercept \<open>90\<close> and slope \<open>10\<close>, the one-step projection is \<open>140\<close>, the tolerance
  against the last actual value \<open>130\<close> is \<open>10\<close>, and the direction is \<open>tetap\<close> (flat);
  the loop body of the summary builder reports the same values.
\<close>

theorem C1_scenario_four_months:
  "fit_linear_trend [100, 110, 120, 130] = Inr (90, 10, 1) \<and>
   predict_future 90 10 4 1 = [140] \<and>
   max (0.005 * \<bar>130\<bar>) 10 = (10::real) \<and>
   classify_direction (Some 130) (Some 140) = ''tetap'' \<and>
   (\<exists>s. forecast_group [100, 110, 120, 130] 1 = Inr s \<and> slope_per_bulan s = 10 \<and>
        intercept s = 90 \<and> future_values s = [140] \<and> last_month_actual s = Some 130 \<and>
        arah_prediksi s = ''tetap'')"
proof -
  have fit: "fit_linear_trend [100, 110, 120, 130] = Inr (90, 10, 1)"
    by (simp add: fit_linear_trend_def arange_def linreg_fit_def linreg_predict_def
        r2_score_def ss_res_def ss_tot_def mean_def Let_def upto.simps)
  have pred: "predict_future 90 10 4 1 = [140]"
    by (simp add: predict_future_def arange_def upto.simps)
  have tol: "max (0.005 * \<bar>130\<bar>) 10 = (10::real)" by simp
  have dir: "classify_direction (Some 130) (Some 140) = ''tetap''"
    by (simp add: classify_direction_def)
  have grp: "forecast_group [100, 110, 120, 130] 1 =
     Inr \<lparr>n_obs = 4, last_month_actual = Some 130, slope_per_bulan = 10, intercept = 90,
          r2 = 1, arah_prediksi = ''tetap'', future_values = [140]\<rparr>"
    using fit pred dir by (simp add: forecast_group_def fit_step_def Let_def)
  show ?thesis using fit pred tol dir grp by simp
qed

subsection \<open>The coefficient of determination\<close>














subsection \<open>Resolving the year of each source\<close>

lemma normalize_loop_step:
  assumes "length ys \<noteq> 1"
  shows "normalize_loop k (p # ps) (Some ys) d =
     (case positional_year ys d k p of
        None \<Rightarrow> Inl (year_error p)
      | Some v \<Rightarrow> (case normalize_loop (Suc k) ps (Some ys) d of
                     Inl e \<Rightarrow> Inl e
                   | Inr result \<Rightarrow> Inr (v # result)))"
  using assms by (auto simp: positional_year_def Let_def split: option.splits)

lemma normalize_loop_ok:
  assumes "length ys \<noteq> 1"
  shows "normalize_loop k ps (Some ys) d = Inr rs \<longleftrightarrow>
         map Some rs = map (\<lambda>(j, p). positional_year ys d j p) (enumerate k ps)"
proof (induction ps arbitrary: k rs)
  case Nil
  then show ?case by auto
next
  case (Cons p ps)
  show ?case
  proof (cases "positional_year ys d k p")
    case None
    then show ?thesis
      by (auto simp: normalize_loop_step [OF assms] simp del: normalize_loop.simps)
  next
    case (Some v)
    show ?thesis
    proof (cases rs)
      case Nil
      then show ?thesis using Some
        by (auto simp: normalize_loop_step [OF assms] simp del: normalize_loop.simps
            split: sum.splits)
    next
      case (Cons r rs')
      then show ?thesis using Some Cons.IH [of "Suc k" rs']
        by (auto simp: normalize_loop_step [OF assms] simp del: normalize_loop.simps
            split: sum.splits)
    qed
  qed
qed

lemma normalize_loop_fails:
  assumes "length ys \<noteq> 1"
  shows "(\<exists>e. normalize_loop k ps (Some ys) d = Inl e) \<longleftrightarrow>
         (\<exists>j<length ps. positional_year ys d (k + j) (ps ! j) = None)"
proof (induction ps arbitrary: k)
  case Nil
  then show ?case by simp
next
  case (Cons p ps)
  have ex: "(\<exists>j<length (p # ps). positional_year ys d (k + j) ((p # ps) ! j) = None) \<longleftrightarrow>
        positional_year ys d k p = None \<or>
        (\<exists>j<length ps. positional_year ys d (Suc k + j) (ps ! j) = None)"
    by (auto simp: less_Suc_eq_0_disj)
  show ?case
  proof (cases "positional_year ys d k p")
    case None
    then show ?thesis unfolding ex
      by (simp add: normalize_loop_step [OF assms] del: normalize_loop.simps)
  next
    case (Some v)
    then show ?thesis unfolding ex using Cons.IH [of "Suc k"]
      by (auto simp: normalize_loop_step [OF assms] simp del: normalize_loop.simps
          split: sum.splits)
  qed
qed

lemma positional_year_None:
  "positional_year ys d i p = None \<longleftrightarrow>
     length ys \<le> i \<and> infer_year_from_filename p = None \<and> d = None"
  by (auto simp: positional_year_def split: option.splits)

text \<open>
  Claim C10. When the list of explicit years has at least two entries, whatever the
  number of sources, normalisation succeeds with the years \<open>rs\<close> exactly when every
  source has a year by position: the year at its position in the list while the list
  lasts (years beyond the last source are never read), and after the end of the list
  the year inferred from the name, else the default. It fails exactly when some source
  beyond the end of the list has neither an inferred year nor a default.
\<close>

theorem C10_positional_years:
  assumes "2 \<le> length ys"
  shows "(normalize_years_for_inputs paths (Some ys) d = Inr rs \<longleftrightarrow>
            map Some rs = map (\<lambda>(i, p). positional_year ys d i p) (enumerate 0 paths)) \<and>
         ((\<exists>e. normalize_years_for_inputs paths (Some ys) d = Inl e) \<longleftrightarrow>
            (\<exists>i<length paths. length ys \<le> i \<and> infer_year_from_filename (paths ! i) = None \<and>
                d = None))"
proof -
  have ne: "length ys \<noteq> 1" using assms by simp
  have ok: "normalize_years_for_inputs paths (Some ys) d = Inr rs \<longleftrightarrow>
            map Some rs = map (\<lambda>(i, p). positional_year ys d i p) (enumerate 0 paths)"
    unfolding normalize_years_for_inputs_def by (rule normalize_loop_ok [OF ne])
  have bad: "(\<exists>e. normalize_years_for_inputs paths (Some ys) d = Inl e) \<longleftrightarrow>
            (\<exists>i<length paths. length ys \<le> i \<and> infer_year_from_filename (paths ! i) = None \<and>
                d = None)"
    unfolding normalize_years_for_inputs_def
    using normalize_loop_fails [OF ne, of 0 paths d] by (simp add: positional_year_None)
  from ok bad show ?thesis by blast
qed

lemma infer_a: "infer_year_from_filename ''a.csv'' = None"
  by (simp add: infer_year_from_filename_def basename_def is_digit_def)

lemma infer_d: "infer_year_from_filename ''d 2024.csv'' = Some 2024"
  by (simp add: infer_year_from_filename_def basename_def is_digit_def int_of_digits_def
      digit_val_def)

theorem C10_positional_years_witness:
  "2 \<le> length [2021, 2022 :: int] \<and>
   normalize_years_for_inputs [''a.csv'', ''d 2024.csv'', ''d 2024.csv'', ''a.csv'']
      (Some [2021, 2022]) (Some 2000) = Inr [2021, 2022, 2024, 2000] \<and>
   2 \<le> length [2021, 2022, 2023 :: int] \<and>
   normalize_years_for_inputs [''a.csv''] (Some [2021, 2022, 2023]) None = Inr [2021]"
proof -
  have h: "2 \<le> length [2021, 2022 :: int]" by simp
  have h': "2 \<le> length [2021, 2022, 2023 :: int]" by simp
  have one: "normalize_years_for_inputs [''a.csv'', ''d 2024.csv'', ''d 2024.csv'', ''a.csv'']
      (Some [2021, 2022]) (Some 2000) = Inr [2021, 2022, 2024, 2000]"
    using C10_positional_years [OF h, of "[''a.csv'', ''d 2024.csv'', ''d 2024.csv'', ''a.csv'']"
        "Some 2000" "[2021, 2022, 2024, 2000]"]
    by (simp add: positional_year_def infer_a infer_d)
  have two: "normalize_years_for_inputs [''a.csv''] (Some [2021, 2022, 2023]) None = Inr [2021]"
    using C10_positional_years [OF h', of "[''a.csv'']" None "[2021]"]
    by (simp add: positional_year_def)
  from h h' one two show ?thesis by blast
qed

text \<open>
  Claim C6, at the input where the program departs from it. The base name
  \<open>Jumlah Penumpang Kereta Api, 1999.csv\<close> contains the four-digit number \<open>1999\<close>, inside
  the range \<open>1900..2100\<close> that \<open>infer_year_from_filename\<close> checks, yet no year is
  inferred, since the pattern only matches numbers that start with \<open>20\<close>: with a
  default year the default is used instead of \<open>1999\<close>, and without one the error is
  raised.
\<close>

theorem C6_year_1999_not_inferred:
  "infer_year_from_filename ''Jumlah Penumpang Kereta Api, 1999.csv'' = None \<and>
   normalize_years_for_inputs [''Jumlah Penumpang Kereta Api, 1999.csv''] None (Some 2024)
     = Inr [2024] \<and>
   normalize_years_for_inputs [''Jumlah Penumpang Kereta Api, 1999.csv''] None None
     = Inl (year_error ''Jumlah Penumpang Kereta Api, 1999.csv'')"
proof -
  have inf: "infer_year_from_filename ''Jumlah Penumpang Kereta Api, 1999.csv'' = None"
    by (simp add: infer_year_from_filename_def basename_def is_digit_def)
  show ?thesis using inf by (simp add: normalize_years_for_inputs_def)
qed

subsection \<open>The rows of the loader\<close>

lemma clean_plain [simp]:
  "strip_bom_and_clean ''Jenis'' = ''Jenis''"
  "strip_bom_and_clean ''Januari'' = ''Januari''"
  "strip_bom_and_clean ''Februari'' = ''Februari''"
  "strip_bom_and_clean ''Tahunan'' = ''Tahunan''"
  by (simp_all add: strip_bom_and_clean_def strip_def is_space_def)







subsection \<open>The shape errors of the loader\<close>







subsection \<open>The order of the merged rows\<close>













end
